theory Spec2Isabelle
  imports Complex_Main
begin

section \<open>Configuration (main.py, lines 28-34)\<close>

definition MAX_TEXT_LENGTH :: nat where
  "MAX_TEXT_LENGTH = 3000"

definition AUDIO_SR :: nat where
  "AUDIO_SR = 24000"

definition DEFAULT_VOICE :: string where
  "DEFAULT_VOICE = ''af_heart''"

definition DEFAULT_LANG :: string where
  "DEFAULT_LANG = ''f''"

definition PIPELINE_TIMEOUT :: nat where
  "PIPELINE_TIMEOUT = 60"

section \<open>Python values\<close>

text \<open>
  A Python \<open>str\<close> is a sequence of Unicode code points and \<open>len\<close> counts code points,
  so the request text is a list of code points. File names, log messages and error
  details are ASCII and are kept as \<open>string\<close>; accents of the French messages are
  dropped and apostrophes left out.
\<close>

type_synonym ustr = "nat list"

type_synonym audio = "int list"

datatype pyval = PNone | PStr string | PAudio audio

text \<open>What the engine's generator yields: \<open>None\<close> or a tuple of any length.\<close>

datatype item = ItemNone | ItemTuple "pyval list"

datatype exn =
    TimeoutError
  | RuntimeError string
  | ValueError string
  | TypeError string
  | OSError string
  | EngineError string

text \<open>What the awaited call hands back as \<open>filename\<close>: a \<open>str\<close> or an event loop object.\<close>

datatype pyobj = Str string | EventLoop

datatype thread = MainThread | WorkerThread

datatype level = DEBUG | INFO | WARNING | ERROR

fun level_no :: "level \<Rightarrow> nat" where
  "level_no DEBUG = 10"
| "level_no INFO = 20"
| "level_no WARNING = 30"
| "level_no ERROR = 40"

section \<open>The world: scratch directory and observable events\<close>

datatype fcontent = Wav pyval nat | Partial

datatype event =
    Log level string
  | KPipelineInit string
  | PipelineCall ustr string "rat option"
  | SfWrite string
  | Unlinked string

text \<open>
  \<open>files\<close> is the content of \<open>STATIC_DIR\<close>, keyed by file name. \<open>trace\<close> records, in
  order, the log records emitted and every use of the engine, the audio writer and
  \<open>unlink\<close>.
\<close>

record world =
  files :: "string \<Rightarrow> fcontent option"
  trace :: "event list"

datatype write_result = WriteOk | WriteFails exn bool

text \<open>
  The external collaborators. \<open>init_error lang\<close> is the exception that
  \<open>KPipeline(lang_code=lang)\<close> raises, if any; \<open>generate\<close> gives the items the generator
  yields and the exception it raises after them, if any.
\<close>

record engine =
  init_error :: "string \<Rightarrow> exn option"
  generate :: "string \<Rightarrow> ustr \<Rightarrow> string \<Rightarrow> rat option \<Rightarrow> item list \<times> exn option"

text \<open>
  \<open>KPipeline\<close> is \<open>None\<close> when the import at process start failed. \<open>time_ms\<close> is the
  clock, in milliseconds since the epoch. \<open>thread_latency\<close> is the number of seconds
  until the first worker thread has run its thunk, \<open>synth_seconds\<close> the number of seconds
  the retried call takes. \<open>sf_write\<close> is \<open>soundfile.write\<close>: it succeeds, or fails and
  says whether it left a file behind. \<open>unlink_error p\<close> is the exception \<open>unlink\<close> raises
  on an existing file \<open>p\<close>, if any.
\<close>

record env =
  KPipeline :: "engine option"
  time_ms :: nat
  thread_latency :: nat
  synth_seconds :: nat
  sf_write :: "string \<Rightarrow> pyval \<Rightarrow> write_result"
  unlink_error :: "string \<Rightarrow> exn option"

section \<open>Logging (main.py, lines 36-49)\<close>

text \<open>The logger's level is \<open>INFO\<close>: a record below it is dropped.\<close>

definition logger_log :: "level \<Rightarrow> string \<Rightarrow> world \<Rightarrow> world" where
  "logger_log lvl msg w =
     (if level_no INFO \<le> level_no lvl then w\<lparr>trace := trace w @ [Log lvl msg]\<rparr> else w)"

definition logger_debug :: "string \<Rightarrow> world \<Rightarrow> world" where
  "logger_debug msg w = logger_log DEBUG msg w"

definition logger_info :: "string \<Rightarrow> world \<Rightarrow> world" where
  "logger_info msg w = logger_log INFO msg w"

definition logger_warning :: "string \<Rightarrow> world \<Rightarrow> world" where
  "logger_warning msg w = logger_log WARNING msg w"

definition logger_error :: "string \<Rightarrow> world \<Rightarrow> world" where
  "logger_error msg w = logger_log ERROR msg w"

text \<open>\<open>logger.exception\<close> logs at level \<open>ERROR\<close>.\<close>

definition logger_exception :: "string \<Rightarrow> world \<Rightarrow> world" where
  "logger_exception msg w = logger_log ERROR msg w"

section \<open>Helpers (main.py, lines 78-93)\<close>

definition path_exists :: "string \<Rightarrow> world \<Rightarrow> bool" where
  "path_exists path w = (files w path \<noteq> None)"

text \<open>\<open>Path.unlink\<close>: raises on a missing file, and where the environment says so.\<close>

definition path_unlink :: "env \<Rightarrow> string \<Rightarrow> world \<Rightarrow> (exn + unit) \<times> world" where
  "path_unlink e path w =
     (if files w path = None then (Inl (OSError ''FileNotFoundError''), w)
      else (case unlink_error e path of
              Some x \<Rightarrow> (Inl x, w)
            | None \<Rightarrow>
                (Inr (), w\<lparr>files := (files w)(path := None),
                            trace := trace w @ [Unlinked path]\<rparr>)))"

definition write_wav_file ::
  "env \<Rightarrow> string \<Rightarrow> pyval \<Rightarrow> nat \<Rightarrow> world \<Rightarrow> (exn + unit) \<times> world" where
  "write_wav_file e filename audio_numpy samplerate w =
     (let w1 = w\<lparr>trace := trace w @ [SfWrite filename]\<rparr> in
      case sf_write e filename audio_numpy of
        WriteOk \<Rightarrow> (Inr (), w1\<lparr>files := (files w1)(filename \<mapsto> Wav audio_numpy samplerate)\<rparr>)
      | WriteFails x left \<Rightarrow>
          (Inl x, if left then w1\<lparr>files := (files w1)(filename \<mapsto> Partial)\<rparr> else w1))"

text \<open>Decimal rendering of a Python \<open>int\<close> in an f-string.\<close>

definition digit_char :: "nat \<Rightarrow> char" where
  "digit_char d = ''0123456789'' ! d"

fun str_nat :: "nat \<Rightarrow> string" where
  "str_nat n = (if n < 10 then [digit_char n] else str_nat (n div 10) @ [digit_char (n mod 10)])"

definition str_int :: "int \<Rightarrow> string" where
  "str_int i = (if i < 0 then CHR ''-'' # str_nat (nat (- i)) else str_nat (nat i))"

definition safe_filename :: "int \<Rightarrow> string" where
  "safe_filename ts = ''kokoro_'' @ str_int ts @ ''.wav''"

text \<open>
  \<open>cleanup_file\<close>: the inner \<open>if\<close> is the body of the \<open>try\<close>, the outer \<open>case\<close> is the
  \<open>except Exception\<close> clause.
\<close>

definition cleanup_file :: "env \<Rightarrow> string \<Rightarrow> world \<Rightarrow> (exn + unit) \<times> world" where
  "cleanup_file e path w =
     (case (if path_exists path w
            then (case path_unlink e path w of
                    (Inl x, w1) \<Rightarrow> (Inl x, w1)
                  | (Inr u, w1) \<Rightarrow> (Inr (), logger_info ''Supprime fichier temporaire'' w1))
            else (Inr (), w)) of
        (Inl x, w2) \<Rightarrow> (Inr (), logger_warning ''Erreur suppression fichier'' w2)
      | (Inr u, w2) \<Rightarrow> (Inr (), w2))"

declare str_nat.simps [simp del]

section \<open>Request and response models (main.py, lines 66-76)\<close>

record TTSRequest =
  req_text :: ustr
  req_voice :: "string option"
  req_lang :: "string option"
  req_speed :: "rat option"

record resp_data =
  filename :: pyobj
  download_url :: string

record APIResponse =
  success :: bool
  message :: string
  data :: "resp_data option"

datatype HTTPException = HTTPException nat string

fun status_code :: "HTTPException \<Rightarrow> nat" where
  "status_code (HTTPException c d) = c"

section \<open>Text validation (main.py, lines 107-117)\<close>

text \<open>
  The characters \<open>str.strip()\<close> removes: the code points for which \<open>str.isspace\<close> holds.
\<close>

definition isspace :: "nat \<Rightarrow> bool" where
  "isspace c =
     ((9 \<le> c \<and> c \<le> 13) \<or> (28 \<le> c \<and> c \<le> 32) \<or> c = 133 \<or> c = 160 \<or> c = 5760
      \<or> (8192 \<le> c \<and> c \<le> 8202) \<or> c = 8232 \<or> c = 8233 \<or> c = 8239 \<or> c = 8287
      \<or> c = 12288)"

definition strip :: "ustr \<Rightarrow> ustr" where
  "strip s = rev (dropWhile isspace (rev (dropWhile isspace s)))"

text \<open>\<open>x or default\<close> on an optional string: \<open>None\<close> and the empty string are falsy.\<close>

definition or_default :: "string option \<Rightarrow> string \<Rightarrow> string" where
  "or_default x d = (case x of None \<Rightarrow> d | Some s \<Rightarrow> if s = [] then d else s)"

section \<open>The synthesis adapter (main.py, lines 131-165)\<close>

text \<open>\<open>not item\<close>: \<open>None\<close> and the empty tuple are falsy.\<close>

fun falsy :: "item \<Rightarrow> bool" where
  "falsy ItemNone = True"
| "falsy (ItemTuple fs) = (fs = [])"

fun len :: "item \<Rightarrow> nat" where
  "len ItemNone = 0"
| "len (ItemTuple fs) = length fs"

text \<open>\<open>gs, ps, audio = item\<close>: raises unless the tuple has exactly three fields.\<close>

fun unpack3 :: "item \<Rightarrow> exn + (pyval \<times> pyval \<times> pyval)" where
  "unpack3 (ItemTuple [gs, ps, au]) = Inr (gs, ps, au)"
| "unpack3 (ItemTuple fs) =
     Inl (ValueError (if 3 < length fs then ''too many values to unpack (expected 3)''
                      else ''not enough values to unpack (expected 3)''))"
| "unpack3 ItemNone = Inl (TypeError ''cannot unpack non-iterable NoneType object'')"

text \<open>
  The \<open>for\<close> loop over the generator (lines 143-148). The second argument is the
  exception the generator raises once its items are exhausted, if any; the third is
  \<open>last_audio\<close>.
\<close>

fun iterate_gen :: "item list \<Rightarrow> exn option \<Rightarrow> pyval \<Rightarrow> exn + pyval" where
  "iterate_gen [] None last_audio = Inr last_audio"
| "iterate_gen [] (Some x) last_audio = Inl x"
| "iterate_gen (it # gen) ex last_audio =
     (if falsy it \<or> len it < 3 then iterate_gen gen ex last_audio
      else (case unpack3 it of
              Inl x \<Rightarrow> Inl x
            | Inr (gs, ps, au) \<Rightarrow> iterate_gen gen ex au))"

text \<open>The body of the second \<open>try\<close> (lines 141-156).\<close>

definition generate_and_write ::
  "env \<Rightarrow> engine \<Rightarrow> ustr \<Rightarrow> string \<Rightarrow> string \<Rightarrow> rat option \<Rightarrow> string \<Rightarrow> world
     \<Rightarrow> (exn + string) \<times> world" where
  "generate_and_write e pipeline txt voice lang speed out_path w =
     (let w1 = w\<lparr>trace := trace w @ [PipelineCall txt voice speed]\<rparr> in
      case generate pipeline lang txt voice speed of (gen, ex) \<Rightarrow>
        (case iterate_gen gen ex PNone of
           Inl x \<Rightarrow> (Inl x, w1)
         | Inr last_audio \<Rightarrow>
             if last_audio = PNone
             then (Inl (RuntimeError ''Aucune sortie audio produite par le modele.''),
                   logger_error ''Pipeline n a retourne aucun audio.'' w1)
             else (case write_wav_file e out_path last_audio AUDIO_SR w1 of
                     (Inl x, w2) \<Rightarrow> (Inl x, w2)
                   | (Inr u, w2) \<Rightarrow> (Inr out_path, logger_info ''Fichier audio genere'' w2))))"

text \<open>
  \<open>run_pipeline_and_write\<close>: the first \<open>try\<close> creates the pipeline, the second runs
  \<open>generate_and_write\<close>; its \<open>except\<close> clause logs, removes the output file if it exists
  (swallowing what \<open>unlink\<close> raises) and re-raises.
\<close>

definition run_pipeline_and_write ::
  "env \<Rightarrow> engine \<Rightarrow> ustr \<Rightarrow> string \<Rightarrow> string \<Rightarrow> rat option \<Rightarrow> string \<Rightarrow> world
     \<Rightarrow> (exn + string) \<times> world" where
  "run_pipeline_and_write e kp txt voice lang speed out_path w =
     (let w0 = w\<lparr>trace := trace w @ [KPipelineInit lang]\<rparr> in
      case init_error kp lang of
        Some x \<Rightarrow>
          (Inl (RuntimeError ''Erreur d initialisation du moteur TTS.''),
           logger_exception ''Erreur initialisation KPipeline'' w0)
      | None \<Rightarrow>
          (case generate_and_write e kp txt voice lang speed out_path w0 of
             (Inr name, w1) \<Rightarrow> (Inr name, w1)
           | (Inl x, w1) \<Rightarrow>
               (let w2 = logger_exception ''Erreur pendant generation TTS'' w1;
                    w3 = (if path_exists out_path w2
                          then (case path_unlink e out_path w2 of
                                  (Inl y, w') \<Rightarrow> w'
                                | (Inr u, w') \<Rightarrow> w')
                          else w2)
                in (Inl x, w3))))"

section \<open>asyncio\<close>

text \<open>
  \<open>asyncio.get_event_loop()\<close>: outside the main thread no loop is current unless one
  was set there, which this program never does, so the call raises.
\<close>

fun get_event_loop :: "thread \<Rightarrow> exn + pyobj" where
  "get_event_loop MainThread = Inr EventLoop"
| "get_event_loop WorkerThread =
     Inl (RuntimeError ''There is no current event loop in thread'')"

text \<open>
  \<open>asyncio.to_thread(f)\<close> with the number of seconds after which the thread has
  finished: a future, given as that duration and what \<open>f\<close> does in a worker thread.
\<close>

definition to_thread :: "nat \<Rightarrow> (thread \<Rightarrow> 'a) \<Rightarrow> nat \<times> 'a" where
  "to_thread d f = (d, f WorkerThread)"

text \<open>
  \<open>asyncio.wait_for(fut, timeout)\<close>: \<open>TimeoutError\<close> when the future takes longer than
  the timeout. The worker thread is not cancelled, so what it does to the world stays.
\<close>

definition wait_for :: "nat \<times> ((exn + 'a) \<times> world) \<Rightarrow> nat \<Rightarrow> (exn + 'a) \<times> world" where
  "wait_for fut timeout =
     (case fut of (d, (r, w)) \<Rightarrow> if timeout < d then (Inl TimeoutError, w) else (r, w))"

text \<open>A plain \<open>await fut\<close>: the result of the future, however long it takes.\<close>

definition await :: "nat \<times> 'a \<Rightarrow> 'a" where
  "await fut = snd fut"

text \<open>
  \<open>asyncio.run(coro)\<close> and \<open>new_event_loop().run_until_complete(coro)\<close> both run the
  coroutine to its end and return or raise what it does.
\<close>

definition run_coroutine :: "((exn + string) \<times> world) \<Rightarrow> ((exn + pyobj) \<times> world)" where
  "run_coroutine c = (case c of (Inl x, w) \<Rightarrow> (Inl x, w) | (Inr s, w) \<Rightarrow> (Inr (Str s), w))"

section \<open>The request handler (main.py, lines 104-197)\<close>

text \<open>\<open>f"/download/{filename}"\<close>.\<close>

fun format_obj :: "pyobj \<Rightarrow> string" where
  "format_obj (Str s) = s"
| "format_obj EventLoop = ''<_UnixSelectorEventLoop running=False closed=False debug=False>''"

definition build_response :: "pyobj \<Rightarrow> APIResponse" where
  "build_response fname =
     \<lparr>success = True, message = ''Audio genere avec succes.'',
      data = Some \<lparr>filename = fname, download_url = ''/download/'' @ format_obj fname\<rparr>\<rparr>"

text \<open>
  Line 169: the thunk handed to the worker thread is
  \<open>asyncio.run(run_pipeline_and_write()) if False else asyncio.get_event_loop()\<close>.
\<close>

definition first_attempt ::
  "env \<Rightarrow> engine \<Rightarrow> ustr \<Rightarrow> string \<Rightarrow> string \<Rightarrow> rat option \<Rightarrow> string \<Rightarrow> world
     \<Rightarrow> (exn + pyobj) \<times> world" where
  "first_attempt e kp txt voice lang speed out_path w =
     wait_for
       (to_thread (thread_latency e)
          (\<lambda>th. if False
                then run_coroutine (run_pipeline_and_write e kp txt voice lang speed out_path w)
                else (get_event_loop th, w)))
       PIPELINE_TIMEOUT"

text \<open>Lines 176-179: \<open>sync_wrapper\<close> run in a worker thread and awaited.\<close>

definition retry_attempt ::
  "env \<Rightarrow> engine \<Rightarrow> ustr \<Rightarrow> string \<Rightarrow> string \<Rightarrow> rat option \<Rightarrow> string \<Rightarrow> world
     \<Rightarrow> (exn + pyobj) \<times> world" where
  "retry_attempt e kp txt voice lang speed out_path w =
     await
       (to_thread (synth_seconds e)
          (\<lambda>th. run_coroutine (run_pipeline_and_write e kp txt voice lang speed out_path w)))"

definition synthesize_tts ::
  "env \<Rightarrow> TTSRequest \<Rightarrow> world \<Rightarrow> (HTTPException + APIResponse) \<times> world" where
  "synthesize_tts e payload w =
     (let txt = strip (req_text payload) in
      if txt = []
      then (Inl (HTTPException 422 ''Le champ text est requis et ne peut pas etre vide.''),
            logger_warning ''Requete TTS avec texte vide'' w)
      else if MAX_TEXT_LENGTH < length txt
      then (Inl (HTTPException 413 ''Texte trop long (max 3000 caracteres).''),
            logger_info ''Texte trop long'' w)
      else
        (let voice = or_default (req_voice payload) DEFAULT_VOICE;
             lang = or_default (req_lang payload) DEFAULT_LANG
         in case KPipeline e of
              None \<Rightarrow>
                (Inl (HTTPException 503
                        ''TTS engine not available (kokoro not installed or failed to import).''),
                 logger_error ''KPipeline (kokoro) non disponible: import failed'' w)
            | Some kp \<Rightarrow>
                (let ts = int (time_ms e);
                     out_path = safe_filename ts;
                     w1 = logger_info ''TTS requested'' w
                 in case first_attempt e kp txt voice lang (req_speed payload) out_path w1 of
                      (Inr fname, w2) \<Rightarrow> (Inr (build_response fname), w2)
                    | (Inl x, w2) \<Rightarrow>
                        if x = TimeoutError
                        then (Inl (HTTPException 504 ''Generation TTS trop longue (timeout).''),
                              logger_error ''Timeout lors de l appel au pipeline TTS'' w2)
                        else
                          (case retry_attempt e kp txt voice lang (req_speed payload) out_path
                                  (logger_debug
                                     ''Retrying pipeline run in to_thread with proper sync wrapper due to earlier failure.''
                                     w2) of
                             (Inr fname, w3) \<Rightarrow> (Inr (build_response fname), w3)
                           | (Inl y, w3) \<Rightarrow>
                               if y = TimeoutError
                               then (Inl (HTTPException 504
                                            ''Generation TTS trop longue (timeout).''),
                                     logger_error
                                       ''Timeout lors de l appel au pipeline TTS (retry).'' w3)
                               else (Inl (HTTPException 500
                                            ''Erreur interne lors de la generation TTS.''),
                                     logger_exception
                                       ''Echec generation TTS apres tentative'' w3)))))"

section \<open>Reference definitions for the properties\<close>

text \<open>The third field of a three-field item; \<open>None\<close> for any other item.\<close>

definition audio_field :: "item \<Rightarrow> pyval" where
  "audio_field it = (case it of ItemTuple [gs, ps, au] \<Rightarrow> au | _ \<Rightarrow> PNone)"

text \<open>
  The audio field of the last item that has exactly three fields, \<open>None\<close> when there
  is no such item.
\<close>

definition last_audio_of :: "item list \<Rightarrow> pyval" where
  "last_audio_of gen =
     (case filter (\<lambda>it. len it = 3) gen of [] \<Rightarrow> PNone | xs \<Rightarrow> audio_field (last xs))"

definition is_digit :: "char \<Rightarrow> bool" where
  "is_digit c = (c \<in> set ''0123456789'')"

text \<open>The pattern \<open>kokoro_<digits>.wav\<close>, with at least one digit.\<close>

definition kokoro_pattern :: "string \<Rightarrow> bool" where
  "kokoro_pattern s =
     (let n = length s
      in 11 < n \<and> take 7 s = ''kokoro_'' \<and> drop (n - 4) s = ''.wav''
         \<and> list_all is_digit (take (n - 11) (drop 7 s)))"

section \<open>Sample inputs\<close>

text \<open>The text \<open>Hello world\<close>, as code points.\<close>

definition hello :: ustr where
  "hello = [72, 101, 108, 108, 111, 32, 119, 111, 114, 108, 100]"

definition req_hello :: TTSRequest where
  "req_hello = \<lparr>req_text = hello, req_voice = None, req_lang = Some ''f'', req_speed = Some 1\<rparr>"

text \<open>A space followed by 3000 letters \<open>a\<close>: 3001 characters.\<close>

definition req_padded :: TTSRequest where
  "req_padded = \<lparr>req_text = 32 # replicate 3000 97, req_voice = None, req_lang = None,
                  req_speed = None\<rparr>"

definition valid_tuple :: item where
  "valid_tuple = ItemTuple [PStr ''Hello world'', PStr ''h@lo'', PAudio [1, 2, 3]]"

definition none_after_audio :: "item list" where
  "none_after_audio = [valid_tuple, ItemTuple [PStr ''Bye'', PStr ''baI'', PNone]]"

text \<open>An item of four fields, none of them an audio buffer.\<close>

definition long_item :: item where
  "long_item = ItemTuple [PStr ''a'', PStr ''b'', PNone, PNone]"

text \<open>An engine that loads, yields the given items and then raises the given exception.\<close>

definition engine_of :: "item list \<Rightarrow> exn option \<Rightarrow> engine" where
  "engine_of gen ex = \<lparr>init_error = (\<lambda>l. None), generate = (\<lambda>l t v s. (gen, ex))\<rparr>"

definition env_ok :: env where
  "env_ok = \<lparr>KPipeline = Some (engine_of [valid_tuple] None), time_ms = 1700000000123,
             thread_latency = 0, synth_seconds = 2, sf_write = (\<lambda>p a. WriteOk),
             unlink_error = (\<lambda>p. None)\<rparr>"

definition env_unavailable :: env where
  "env_unavailable = env_ok\<lparr>KPipeline := None\<rparr>"

definition env_write_fails :: env where
  "env_write_fails =
     env_ok\<lparr>sf_write := (\<lambda>p a. WriteFails (OSError ''No space left on device'') True)\<rparr>"

definition env_unlink_fails :: env where
  "env_unlink_fails =
     env_write_fails\<lparr>unlink_error := (\<lambda>p. Some (OSError ''PermissionError''))\<rparr>"

definition env_slow :: env where
  "env_slow = env_ok\<lparr>synth_seconds := 61\<rparr>"

definition env_slow_failing :: env where
  "env_slow_failing =
     env_ok\<lparr>KPipeline := Some (engine_of [valid_tuple] (Some (EngineError ''engine failure''))),
            synth_seconds := 120\<rparr>"

definition empty_world :: world where
  "empty_world = \<lparr>files = (\<lambda>p. None), trace = []\<rparr>"

text \<open>A scratch directory that already holds one finished file.\<close>

definition world_with_file :: world where
  "world_with_file =
     \<lparr>files = (\<lambda>p. None)(''old.wav'' \<mapsto> Wav (PAudio [7]) 24000), trace = []\<rparr>"

section \<open>Auxiliary facts\<close>

lemmas handler_defs = synthesize_tts_def first_attempt_def retry_attempt_def wait_for_def
  to_thread_def await_def run_coroutine_def run_pipeline_and_write_def generate_and_write_def
  write_wav_file_def path_exists_def path_unlink_def logger_log_def logger_info_def
  logger_debug_def logger_warning_def logger_error_def logger_exception_def
  build_response_def safe_filename_def str_int_def strip_def isspace_def or_default_def
  MAX_TEXT_LENGTH_def PIPELINE_TIMEOUT_def AUDIO_SR_def DEFAULT_VOICE_def DEFAULT_LANG_def
  Let_def

lemmas input_defs = hello_def req_hello_def valid_tuple_def engine_of_def env_ok_def
  empty_world_def req_padded_def env_unavailable_def none_after_audio_def
  long_item_def env_write_fails_def env_unlink_fails_def env_slow_def env_slow_failing_def
  world_with_file_def

subsection \<open>Text and file names\<close>

lemma str_ts: "str_nat 1700000000123 = ''1700000000123''"
  by (simp add: str_nat.simps digit_char_def)

lemma strip_empty_iff: "strip s = [] \<longleftrightarrow> list_all isspace s"
proof
  assume a: "strip s = []"
  show "list_all isspace s"
  proof (rule ccontr)
    assume "\<not> list_all isspace s"
    then have ne: "dropWhile isspace s \<noteq> []"
      by (simp add: dropWhile_eq_Nil_conv list_all_iff)
    then have "\<not> isspace (hd (dropWhile isspace s))"
      by (rule hd_dropWhile)
    moreover from a have "\<forall>x \<in> set (dropWhile isspace s). isspace x"
      by (simp add: strip_def dropWhile_eq_Nil_conv)
    ultimately show False using ne by (meson list.set_sel(1))
  qed
next
  assume "list_all isspace s"
  then have "dropWhile isspace s = []"
    by (simp add: dropWhile_eq_Nil_conv list_all_iff)
  then show "strip s = []"
    by (simp only: strip_def rev.simps dropWhile.simps)
qed

lemma length_strip: "length (strip s) \<le> length s"
  unfolding strip_def
  by (metis length_rev length_dropWhile_le le_trans)

lemma str_nat_digits: "str_nat n \<noteq> [] \<and> list_all is_digit (str_nat n)"
proof (induction n rule: str_nat.induct)
  case (1 n)
  have d: "is_digit (digit_char k)" if "k < 10" for k
  proof -
    from that have "k \<in> {0, 1, 2, 3, 4, 5, 6, 7, 8, 9}" by auto
    then show ?thesis by (auto simp: digit_char_def is_digit_def)
  qed
  show ?case
  proof (cases "n < 10")
    case True
    then show ?thesis using d [of n]
      by (subst str_nat.simps, subst str_nat.simps) simp
  next
    case False
    then have "n mod 10 < 10" by simp
    with False 1 show ?thesis
      using d [of "n mod 10"]
      by (subst str_nat.simps, subst (2) str_nat.simps) simp
  qed
qed

lemma kokoro_pattern_digits:
  "ds \<noteq> [] \<Longrightarrow> list_all is_digit ds \<Longrightarrow> kokoro_pattern (''kokoro_'' @ ds @ ''.wav'')"
  by (cases ds) (simp_all add: kokoro_pattern_def Let_def)

subsection \<open>Deletion\<close>

lemma cleanup_total: "fst (cleanup_file e path w) = Inr ()"
  by (simp add: cleanup_file_def split: prod.splits sum.splits if_splits)

lemma cleanup_absent: "files w path = None \<Longrightarrow> cleanup_file e path w = (Inr (), w)"
  by (simp add: cleanup_file_def path_exists_def)

lemma cleanup_files:
  "files (snd (cleanup_file e path w)) =
     (if unlink_error e path = None then (files w)(path := None) else files w)"
  by (auto simp: cleanup_file_def path_exists_def path_unlink_def logger_info_def
      logger_warning_def logger_log_def split: option.splits)

lemma cleanup_failure_logged:
  "files w path \<noteq> None \<Longrightarrow> unlink_error e path = Some x \<Longrightarrow>
     cleanup_file e path w =
       (Inr (), w\<lparr>trace := trace w @ [Log WARNING ''Erreur suppression fichier'']\<rparr>)"
  by (simp add: cleanup_file_def path_exists_def path_unlink_def logger_warning_def
      logger_log_def)

subsection \<open>The generator loop\<close>

lemma iterate_gen_short:
  "\<forall>it \<in> set gen. len it \<le> 3 \<Longrightarrow>
     iterate_gen gen None acc =
       Inr (case filter (\<lambda>it. len it = 3) gen of [] \<Rightarrow> acc | xs \<Rightarrow> audio_field (last xs))"
proof (induction gen arbitrary: acc)
  case Nil
  then show ?case by simp
next
  case (Cons it gen)
  show ?case
  proof (cases "falsy it \<or> len it < 3")
    case True
    then have "len it \<noteq> 3" by (cases it) auto
    with True Cons show ?thesis by simp
  next
    case False
    with Cons.prems have l3: "len it = 3" by auto
    then obtain gs ps au where it: "it = ItemTuple [gs, ps, au]"
      by (cases it) (auto simp: length_Suc_conv numeral_3_eq_3)
    from Cons have "iterate_gen gen None au =
        Inr (case filter (\<lambda>it. len it = 3) gen of [] \<Rightarrow> au | xs \<Rightarrow> audio_field (last xs))"
      by simp
    then show ?thesis
      by (simp add: it audio_field_def split: list.splits)
  qed
qed

lemma iterate_gen_last_audio:
  "\<forall>it \<in> set gen. len it \<le> 3 \<Longrightarrow> iterate_gen gen None PNone = Inr (last_audio_of gen)"
  by (simp add: iterate_gen_short last_audio_of_def)

lemma iterate_gen_long:
  "\<exists>it \<in> set gen. 3 < len it \<Longrightarrow> \<exists>m. iterate_gen gen ex acc = Inl (ValueError m)"
proof (induction gen arbitrary: acc)
  case Nil
  then show ?case by simp
next
  case (Cons it gen)
  show ?case
  proof (cases "falsy it \<or> len it < 3")
    case True
    then have "len it < 3" by (cases it) auto
    with Cons.prems have "\<exists>it \<in> set gen. 3 < len it" by auto
    with True Cons.IH show ?thesis by simp
  next
    case False
    show ?thesis
    proof (cases "len it = 3")
      case True
      then obtain gs ps au where it: "it = ItemTuple [gs, ps, au]"
        by (cases it) (auto simp: length_Suc_conv numeral_3_eq_3)
      from True Cons.prems have "\<exists>it \<in> set gen. 3 < len it" by auto
      with Cons.IH show ?thesis by (simp add: it)
    next
      case ne: False
      with False have "3 < len it" by auto
      then obtain a b c d fs where "it = ItemTuple (a # b # c # d # fs)"
        by (cases it) (auto simp: Suc_less_eq2 numeral_3_eq_3 length_Suc_conv neq_Nil_conv)
      then show ?thesis by simp
    qed
  qed
qed


subsection \<open>The adapter\<close>


lemma run_write_ok:
  assumes "init_error kp lang = None"
      and "generate kp lang txt voice speed = (gen, None)"
      and "\<forall>it \<in> set gen. len it \<le> 3"
      and "last_audio_of gen \<noteq> PNone"
      and "sf_write e out_path (last_audio_of gen) = WriteOk"
  shows "fst (run_pipeline_and_write e kp txt voice lang speed out_path w) = Inr out_path"
    and "files (snd (run_pipeline_and_write e kp txt voice lang speed out_path w)) out_path
           = Some (Wav (last_audio_of gen) AUDIO_SR)"
  using assms
  by (auto simp: run_pipeline_and_write_def generate_and_write_def iterate_gen_last_audio
      write_wav_file_def logger_info_def logger_log_def Let_def)

lemma run_long_item:
  assumes "init_error kp lang = None"
      and "generate kp lang txt voice speed = (gen, ex)"
      and "\<exists>it \<in> set gen. 3 < len it"
  shows "\<exists>m. fst (run_pipeline_and_write e kp txt voice lang speed out_path w)
            = Inl (ValueError m)"
proof -
  from iterate_gen_long [OF assms(3)] obtain m where
    "iterate_gen gen ex PNone = Inl (ValueError m)" by blast
  with assms(1,2) show ?thesis
    by (auto simp: run_pipeline_and_write_def generate_and_write_def Let_def)
qed


lemma run_ok_name:
  "fst (run_pipeline_and_write e kp txt voice lang speed out_path w) = Inr name \<Longrightarrow>
     name = out_path"
  by (auto simp: run_pipeline_and_write_def generate_and_write_def Let_def
      split: option.splits prod.splits sum.splits if_splits)

lemma run_env_synth_seconds:
  "run_pipeline_and_write (e\<lparr>synth_seconds := d\<rparr>) kp txt voice lang speed out_path w =
     run_pipeline_and_write e kp txt voice lang speed out_path w"
proof -
  have u: "path_unlink (e\<lparr>synth_seconds := d\<rparr>) = path_unlink e"
    by (intro ext) (simp add: path_unlink_def)
  have ww: "write_wav_file (e\<lparr>synth_seconds := d\<rparr>) = write_wav_file e"
    by (intro ext) (simp add: write_wav_file_def)
  have g: "generate_and_write (e\<lparr>synth_seconds := d\<rparr>) = generate_and_write e"
    by (intro ext) (simp only: generate_and_write_def ww)
  show ?thesis
    by (simp only: run_pipeline_and_write_def u g)
qed

subsection \<open>The handler\<close>

lemma first_attempt_eq:
  "first_attempt e kp txt voice lang speed out_path w =
     (Inl (if PIPELINE_TIMEOUT < thread_latency e then TimeoutError
           else RuntimeError ''There is no current event loop in thread''), w)"
  by (simp add: first_attempt_def wait_for_def to_thread_def)

lemma handler_success:
  assumes "fst (synthesize_tts e p w) = Inr r"
  shows "\<exists>kp. KPipeline e = Some kp \<and> thread_latency e \<le> PIPELINE_TIMEOUT
           \<and> retry_attempt e kp (strip (req_text p)) (or_default (req_voice p) DEFAULT_VOICE)
                (or_default (req_lang p) DEFAULT_LANG) (req_speed p)
                (safe_filename (int (time_ms e)))
                (logger_debug
                   ''Retrying pipeline run in to_thread with proper sync wrapper due to earlier failure.''
                   (logger_info ''TTS requested'' w))
              = (Inr (Str (safe_filename (int (time_ms e)))), snd (synthesize_tts e p w))
           \<and> r = build_response (Str (safe_filename (int (time_ms e))))"
proof -
  from assms obtain kp where kp: "KPipeline e = Some kp"
    by (cases "KPipeline e") (auto simp: synthesize_tts_def Let_def split: if_splits)
  let ?w1 = "logger_debug
      ''Retrying pipeline run in to_thread with proper sync wrapper due to earlier failure.''
      (logger_info ''TTS requested'' w)"
  let ?run = "run_pipeline_and_write e kp (strip (req_text p))
      (or_default (req_voice p) DEFAULT_VOICE) (or_default (req_lang p) DEFAULT_LANG)
      (req_speed p) (safe_filename (int (time_ms e))) ?w1"
  from assms kp obtain name where lat: "thread_latency e \<le> PIPELINE_TIMEOUT"
    and run: "fst ?run = Inr name"
    and r: "r = build_response (Str name)"
    and w': "snd (synthesize_tts e p w) = snd ?run"
    by (auto simp: synthesize_tts_def first_attempt_eq retry_attempt_def await_def
        to_thread_def run_coroutine_def Let_def
        split: if_splits prod.splits sum.splits)
  from run have "name = safe_filename (int (time_ms e))" by (rule run_ok_name)
  with kp lat run r w' show ?thesis
    by (auto simp: retry_attempt_def await_def to_thread_def run_coroutine_def
        split: prod.splits sum.splits)
qed

lemma handler_env_synth_seconds:
  "synthesize_tts (e\<lparr>synth_seconds := d\<rparr>) p w = synthesize_tts e p w"
proof -
  have ra: "retry_attempt (e\<lparr>synth_seconds := d\<rparr>) = retry_attempt e"
    by (intro ext) (simp add: retry_attempt_def await_def to_thread_def run_env_synth_seconds)
  show ?thesis
    by (cases "KPipeline e") (simp_all add: synthesize_tts_def first_attempt_eq ra Let_def)
qed

section \<open>Properties of the request handler\<close>

subsection \<open>Validation\<close>

text \<open>
  C4, as amended. Text that is empty or consists of whitespace only is rejected with
  status 422, and text whose length after stripping the surrounding whitespace exceeds
  3000 characters is rejected with status 413. In both cases the outcome is the same
  whatever the environment is (engine loaded or not, whatever the engine would do), and
  the only effect is one log record: the engine is not touched and no file changes.
\<close>

theorem validation_before_engine:
  "(list_all isspace (req_text p) \<longrightarrow>
      synthesize_tts e p w =
        (Inl (HTTPException 422 ''Le champ text est requis et ne peut pas etre vide.''),
         w\<lparr>trace := trace w @ [Log WARNING ''Requete TTS avec texte vide'']\<rparr>))
   \<and> (\<not> list_all isspace (req_text p) \<and> MAX_TEXT_LENGTH < length (strip (req_text p)) \<longrightarrow>
      synthesize_tts e p w =
        (Inl (HTTPException 413 ''Texte trop long (max 3000 caracteres).''),
         w\<lparr>trace := trace w @ [Log INFO ''Texte trop long'']\<rparr>))"
  by (simp add: synthesize_tts_def strip_empty_iff logger_warning_def logger_info_def
      logger_log_def)

theorem validation_before_engine_witness:
  "list_all isspace (req_text (req_hello\<lparr>req_text := [32, 9, 10]\<rparr>))
   \<and> fst (synthesize_tts env_ok (req_hello\<lparr>req_text := [32, 9, 10]\<rparr>) empty_world) =
       Inl (HTTPException 422 ''Le champ text est requis et ne peut pas etre vide.'')
   \<and> \<not> list_all isspace (req_text (req_hello\<lparr>req_text := replicate 3001 97\<rparr>))
   \<and> MAX_TEXT_LENGTH < length (strip (req_text (req_hello\<lparr>req_text := replicate 3001 97\<rparr>)))
   \<and> fst (synthesize_tts env_ok (req_hello\<lparr>req_text := replicate 3001 97\<rparr>) empty_world) =
       Inl (HTTPException 413 ''Texte trop long (max 3000 caracteres).'')"
proof -
  have a: "list_all isspace (req_text (req_hello\<lparr>req_text := [32, 9, 10]\<rparr>))"
    by (simp add: isspace_def)
  have b: "\<not> list_all isspace (req_text (req_hello\<lparr>req_text := replicate 3001 97\<rparr>))"
    by (simp add: isspace_def list_all_iff)
  have c: "MAX_TEXT_LENGTH
             < length (strip (req_text (req_hello\<lparr>req_text := replicate 3001 97\<rparr>)))"
    by (simp add: strip_def isspace_def dropWhile_replicate MAX_TEXT_LENGTH_def)
  show ?thesis
    using a b c
      validation_before_engine [of "req_hello\<lparr>req_text := [32, 9, 10]\<rparr>" env_ok empty_world]
      validation_before_engine
        [of "req_hello\<lparr>req_text := replicate 3001 97\<rparr>" env_ok empty_world]
    by simp
qed

text \<open>
  C4 as stated fails: a text of 3001 characters, one space followed by 3000 letters, is
  longer than the maximum and not blank, yet it is not rejected with status 413. The
  length is checked after \<open>strip\<close>, so the request is synthesised and answered with
  success.
\<close>

theorem padded_text_counterexample:
  "length (req_text req_padded) = 3001
   \<and> \<not> list_all isspace (req_text req_padded)
   \<and> fst (synthesize_tts env_ok req_padded empty_world) =
       Inr (build_response (Str ''kokoro_1700000000123.wav''))"
  by (simp add: handler_defs input_defs str_ts dropWhile_replicate list_all_iff)

subsection \<open>Engine availability\<close>

text \<open>
  C5. When the engine failed to load (\<open>KPipeline\<close> is \<open>None\<close>), every request whose
  text is not blank and, once stripped, within the length limit is answered with status
  503; the only effect is one log record, so no synthesis is attempted. A text of at most
  3000 characters is within the limit once stripped (\<open>length_strip\<close>).
\<close>

theorem engine_unavailable:
  assumes "\<not> list_all isspace (req_text p)"
      and "length (strip (req_text p)) \<le> MAX_TEXT_LENGTH"
      and "KPipeline e = None"
  shows "synthesize_tts e p w =
           (Inl (HTTPException 503
                   ''TTS engine not available (kokoro not installed or failed to import).''),
            w\<lparr>trace := trace w
                 @ [Log ERROR ''KPipeline (kokoro) non disponible: import failed'']\<rparr>)"
  using assms
  by (simp add: synthesize_tts_def strip_empty_iff logger_error_def logger_log_def Let_def)

theorem engine_unavailable_witness:
  "\<not> list_all isspace (req_text req_hello)
   \<and> length (strip (req_text req_hello)) \<le> MAX_TEXT_LENGTH
   \<and> KPipeline env_unavailable = None
   \<and> synthesize_tts env_unavailable req_hello empty_world =
       (Inl (HTTPException 503
               ''TTS engine not available (kokoro not installed or failed to import).''),
        empty_world\<lparr>trace := trace empty_world
           @ [Log ERROR ''KPipeline (kokoro) non disponible: import failed'']\<rparr>)"
proof -
  have a: "\<not> list_all isspace (req_text req_hello)"
    by (simp add: req_hello_def hello_def isspace_def)
  have b: "length (strip (req_text req_hello)) \<le> MAX_TEXT_LENGTH"
    by (simp add: req_hello_def hello_def strip_def isspace_def MAX_TEXT_LENGTH_def)
  have c: "KPipeline env_unavailable = None"
    by (simp add: env_unavailable_def)
  show ?thesis
    using a b c engine_unavailable [OF a b c, of empty_world] by simp
qed

subsection \<open>Timeout and retry\<close>

text \<open>
  C1 does not hold of the code. With the engine loaded and the first worker thread
  answering at once, a synthesis that takes 61 seconds, more than the timeout of 60, is
  awaited to its end and answered with success, not with status 504: the only call that
  runs the pipeline is the retry, and it is awaited without \<open>wait_for\<close>.
\<close>

theorem slow_synthesis_answered_with_success:
  "PIPELINE_TIMEOUT < synth_seconds env_slow
   \<and> fst (synthesize_tts env_slow req_hello empty_world) =
       Inr (build_response (Str ''kokoro_1700000000123.wav''))"
  by (simp add: handler_defs input_defs str_ts)

text \<open>
  C2. The first, timeout-bounded attempt never runs the pipeline: whatever the engine is,
  it leaves the world unchanged and fails, with \<open>TimeoutError\<close> when the worker thread
  takes longer than the timeout and with the \<open>RuntimeError\<close> of \<open>get_event_loop\<close>
  otherwise. Hence every successful answer carries the result of the retry, and the
  outcome of the handler does not depend on how long the retried call takes.
\<close>

theorem success_comes_from_untimed_retry:
  "first_attempt e kp txt voice lang speed out_path w =
     (Inl (if PIPELINE_TIMEOUT < thread_latency e then TimeoutError
           else RuntimeError ''There is no current event loop in thread''), w)
   \<and> (fst (synthesize_tts e p w) = Inr r \<longrightarrow>
        (\<exists>kp'. KPipeline e = Some kp' \<and> thread_latency e \<le> PIPELINE_TIMEOUT
           \<and> retry_attempt e kp' (strip (req_text p)) (or_default (req_voice p) DEFAULT_VOICE)
                (or_default (req_lang p) DEFAULT_LANG) (req_speed p)
                (safe_filename (int (time_ms e)))
                (logger_debug
                   ''Retrying pipeline run in to_thread with proper sync wrapper due to earlier failure.''
                   (logger_info ''TTS requested'' w))
              = (Inr (Str (safe_filename (int (time_ms e)))), snd (synthesize_tts e p w))
           \<and> r = build_response (Str (safe_filename (int (time_ms e))))))
   \<and> synthesize_tts (e\<lparr>synth_seconds := d\<rparr>) p w = synthesize_tts e p w"
  using first_attempt_eq [of e kp "txt" voice lang speed out_path w]
    handler_success [of e p w r] handler_env_synth_seconds [of d e p w]
  by blast

theorem success_comes_from_untimed_retry_witness:
  "fst (synthesize_tts env_ok req_hello empty_world) =
     Inr (build_response (Str ''kokoro_1700000000123.wav''))
   \<and> (\<exists>kp'. KPipeline env_ok = Some kp'
         \<and> fst (retry_attempt env_ok kp' (strip (req_text req_hello))
                  (or_default (req_voice req_hello) DEFAULT_VOICE)
                  (or_default (req_lang req_hello) DEFAULT_LANG) (req_speed req_hello)
                  (safe_filename (int (time_ms env_ok)))
                  (logger_debug
                     ''Retrying pipeline run in to_thread with proper sync wrapper due to earlier failure.''
                     (logger_info ''TTS requested'' empty_world)))
             = Inr (Str (safe_filename (int (time_ms env_ok)))))
   \<and> synthesize_tts (env_ok\<lparr>synth_seconds := 3600\<rparr>) req_hello empty_world =
       synthesize_tts env_ok req_hello empty_world"
proof -
  have a: "fst (synthesize_tts env_ok req_hello empty_world) =
             Inr (build_response (Str ''kokoro_1700000000123.wav''))"
    by (simp add: handler_defs input_defs str_ts)
  show ?thesis
    using a
      success_comes_from_untimed_retry
        [of env_ok "engine_of [valid_tuple] None" hello "''af_heart''" "''f''" "Some 1"
            "''kokoro_1700000000123.wav''" empty_world req_hello
            "build_response (Str ''kokoro_1700000000123.wav'')" 3600]
    by auto
qed

text \<open>
  C3 does not hold of the code. The first attempt fails at once for a reason other than
  a timeout; the single retry then runs for 120 seconds, twice the timeout, before the
  engine fails. The handler waits for all of it and answers with status 500: the retry is
  not bounded by the timeout.
\<close>

theorem slow_failing_retry_not_timed_out:
  "thread_latency env_slow_failing \<le> PIPELINE_TIMEOUT
   \<and> PIPELINE_TIMEOUT < synth_seconds env_slow_failing
   \<and> fst (synthesize_tts env_slow_failing req_hello empty_world) =
       Inl (HTTPException 500 ''Erreur interne lors de la generation TTS.'')"
  by (simp add: handler_defs input_defs str_ts)

subsection \<open>The shape of a successful answer\<close>

text \<open>
  C9. Every successful answer has \<open>success = True\<close>; its file name is the prefix
  \<open>kokoro_\<close>, the decimal digits of the clock in milliseconds and the extension
  \<open>.wav\<close>, which matches \<open>kokoro_<digits>.wav\<close>; and its download URL is
  \<open>/download/\<close> followed by that file name.
\<close>

theorem success_response_shape:
  assumes "fst (synthesize_tts e p w) = Inr r"
  shows "success r = True
     \<and> data r = Some \<lparr>filename = Str (safe_filename (int (time_ms e))),
                       download_url = ''/download/'' @ safe_filename (int (time_ms e))\<rparr>
     \<and> safe_filename (int (time_ms e)) = ''kokoro_'' @ str_nat (time_ms e) @ ''.wav''
     \<and> str_nat (time_ms e) \<noteq> [] \<and> list_all is_digit (str_nat (time_ms e))
     \<and> kokoro_pattern (safe_filename (int (time_ms e)))"
proof -
  from handler_success [OF assms]
  have r: "r = build_response (Str (safe_filename (int (time_ms e))))" by blast
  have n: "safe_filename (int (time_ms e)) = ''kokoro_'' @ str_nat (time_ms e) @ ''.wav''"
    by (simp add: safe_filename_def str_int_def)
  have k: "kokoro_pattern (''kokoro_'' @ str_nat (time_ms e) @ ''.wav'')"
    using str_nat_digits [of "time_ms e"] by (intro kokoro_pattern_digits) simp_all
  show ?thesis
    using str_nat_digits [of "time_ms e"] k
    by (simp only: r n) (simp add: build_response_def)
qed

theorem success_response_shape_witness:
  "fst (synthesize_tts env_ok req_hello empty_world) =
     Inr (build_response (Str ''kokoro_1700000000123.wav''))
   \<and> success (build_response (Str ''kokoro_1700000000123.wav'')) = True
   \<and> data (build_response (Str ''kokoro_1700000000123.wav'')) =
       Some \<lparr>filename = Str ''kokoro_1700000000123.wav'',
             download_url = ''/download/kokoro_1700000000123.wav''\<rparr>
   \<and> safe_filename (int (time_ms env_ok)) = ''kokoro_1700000000123.wav''
   \<and> kokoro_pattern (safe_filename (int (time_ms env_ok)))"
proof -
  have a: "fst (synthesize_tts env_ok req_hello empty_world) =
             Inr (build_response (Str ''kokoro_1700000000123.wav''))"
    by (simp add: handler_defs input_defs str_ts)
  have b: "str_nat (time_ms env_ok) = ''1700000000123''"
    by (simp add: env_ok_def str_ts)
  show ?thesis
    using a b success_response_shape [OF a]
    by (simp add: kokoro_pattern_def is_digit_def)
qed

section \<open>Properties of the synthesis adapter\<close>

text \<open>
  C6 does not hold of the code. When the engine yields one valid tuple, its audio buffer
  is retained and written to the output file. When the same tuple is followed by a
  three-field tuple whose audio field is \<open>None\<close>, the second item is not skipped: the
  loop overwrites the buffer it already holds with \<open>None\<close>, the call fails with the
  no-audio error and no file is written, although an audio buffer was produced.
\<close>

theorem none_audio_field_discards_buffer:
  "fst (run_pipeline_and_write env_ok (engine_of [valid_tuple] None) hello ''af_heart'' ''f''
          (Some 1) ''out.wav'' empty_world) = Inr ''out.wav''
   \<and> files (snd (run_pipeline_and_write env_ok (engine_of [valid_tuple] None) hello
                   ''af_heart'' ''f'' (Some 1) ''out.wav'' empty_world)) ''out.wav''
       = Some (Wav (PAudio [1, 2, 3]) AUDIO_SR)
   \<and> none_after_audio = [valid_tuple, ItemTuple [PStr ''Bye'', PStr ''baI'', PNone]]
   \<and> audio_field valid_tuple = PAudio [1, 2, 3]
   \<and> iterate_gen none_after_audio None PNone = Inr PNone
   \<and> fst (run_pipeline_and_write env_ok (engine_of none_after_audio None) hello ''af_heart''
             ''f'' (Some 1) ''out.wav'' empty_world)
       = Inl (RuntimeError ''Aucune sortie audio produite par le modele.'')
   \<and> files (snd (run_pipeline_and_write env_ok (engine_of none_after_audio None) hello
                    ''af_heart'' ''f'' (Some 1) ''out.wav'' empty_world)) ''out.wav'' = None"
  by (simp add: handler_defs input_defs audio_field_def)







section \<open>Properties of the artifact store\<close>

text \<open>
  C10. \<open>cleanup_file\<close> never raises. On a file that is not there it does nothing at all.
  When \<open>unlink\<close> fails, the failure is swallowed and the only effect is one warning in
  the log. Where \<open>unlink\<close> does not fail, a second deletion changes nothing at all; in
  every case deleting twice leaves the same files as deleting once.
\<close>

theorem cleanup_file_total_idempotent:
  "fst (cleanup_file e path w) = Inr ()
   \<and> (files w path = None \<longrightarrow> cleanup_file e path w = (Inr (), w))
   \<and> (files w path \<noteq> None \<and> unlink_error e path \<noteq> None \<longrightarrow>
        snd (cleanup_file e path w) =
          w\<lparr>trace := trace w @ [Log WARNING ''Erreur suppression fichier'']\<rparr>)
   \<and> (unlink_error e path = None \<longrightarrow>
        cleanup_file e path (snd (cleanup_file e path w)) =
          (Inr (), snd (cleanup_file e path w)))
   \<and> files (snd (cleanup_file e path (snd (cleanup_file e path w)))) =
       files (snd (cleanup_file e path w))"
  using cleanup_total [of e path w] cleanup_absent [of w path e]
    cleanup_absent [of "snd (cleanup_file e path w)" path e]
    cleanup_failure_logged [of w path e]
  by (auto simp: cleanup_files)

theorem cleanup_file_total_idempotent_witness:
  "files empty_world ''old.wav'' = None
   \<and> cleanup_file env_ok ''old.wav'' empty_world = (Inr (), empty_world)
   \<and> files world_with_file ''old.wav'' \<noteq> None
   \<and> unlink_error env_unlink_fails ''old.wav'' \<noteq> None
   \<and> cleanup_file env_unlink_fails ''old.wav'' world_with_file =
       (Inr (), world_with_file\<lparr>trace := trace world_with_file
                                  @ [Log WARNING ''Erreur suppression fichier'']\<rparr>)
   \<and> files (snd (cleanup_file env_ok ''old.wav'' world_with_file)) ''old.wav'' = None
   \<and> unlink_error env_ok ''old.wav'' = None
   \<and> cleanup_file env_ok ''old.wav'' (snd (cleanup_file env_ok ''old.wav'' world_with_file)) =
       (Inr (), snd (cleanup_file env_ok ''old.wav'' world_with_file))
   \<and> files (snd (cleanup_file env_ok ''old.wav''
                    (snd (cleanup_file env_ok ''old.wav'' world_with_file)))) =
       files (snd (cleanup_file env_ok ''old.wav'' world_with_file))"
proof -
  have a: "files empty_world ''old.wav'' = None"
    by (simp add: empty_world_def)
  have b: "files world_with_file ''old.wav'' \<noteq> None"
    by (simp add: world_with_file_def)
  have c: "unlink_error env_unlink_fails ''old.wav'' \<noteq> None"
    by (simp add: env_unlink_fails_def env_write_fails_def env_ok_def)
  have d: "files (snd (cleanup_file env_ok ''old.wav'' world_with_file)) ''old.wav'' = None"
    by (simp add: cleanup_file_def path_exists_def path_unlink_def logger_info_def
        logger_log_def world_with_file_def env_ok_def)
  have u: "unlink_error env_ok ''old.wav'' = None"
    by (simp add: env_ok_def)
  show ?thesis
    using a b c d u
      cleanup_file_total_idempotent [of env_ok "''old.wav''" empty_world]
      cleanup_file_total_idempotent [of env_unlink_fails "''old.wav''" world_with_file]
      cleanup_file_total_idempotent [of env_ok "''old.wav''" world_with_file]
    by (simp add: prod_eq_iff)
qed

end
